theory Spec2Isabelle
  imports Main
begin

section \<open>The DNS manifest asset of the installer\<close>

text \<open>
  This theory embeds \<^verbatim>\<open>pkg/asset/manifests/dns.go\<close>: the method \<^verbatim>\<open>(*DNS).Generate\<close>, which
  builds the cluster DNS configuration for the platform of the install configuration, and
  the package-level helper \<^verbatim>\<open>combineGCPZoneInfo\<close>.

  The cloud lookups, the client constructors, the YAML marshaller and the constants of the
  \<^verbatim>\<open>types\<close> packages are not part of the file. They are parameters of the model: a record
  of collaborators, whose functions return either an error or a value, as the Go functions
  do. The model also returns the list of collaborator calls that \<^verbatim>\<open>Generate\<close> issued, in
  the order in which the code issues them.
\<close>

subsection \<open>Inputs\<close>

text \<open>
  \<^verbatim>\<open>installConfig.Config.Platform.Name()\<close> is a string that the switch compares with the
  \<^verbatim>\<open>Name\<close> constants of thirteen platform packages. The cases of a Go switch are pairwise
  different constants, so the name is one of thirteen distinct values or some other string;
  \<open>Unrecognized s\<close> stands for a name \<open>s\<close> that equals none of the constants.
\<close>

datatype platform_name =
    AlibabaCloud | AWS | Azure | GCP | IBMCloud | PowerVS
  | Libvirt | OpenStack | BareMetal | NonePlatform | VSphere | Ovirt | Nutanix
  | Unrecognized string

text \<open>
  \<^verbatim>\<open>types.PublishingStrategy\<close> is a string type. The code only ever compares it with
  \<^verbatim>\<open>types.ExternalPublishingStrategy\<close>.
\<close>

datatype PublishingStrategy =
    ExternalPublishingStrategy | InternalPublishingStrategy | OtherPublishingStrategy string

text \<open>The Azure cloud environment; the code only compares it with \<^verbatim>\<open>azuretypes.StackCloud\<close>.\<close>

datatype CloudEnvironment = StackCloud | OtherCloud string

text \<open>The \<^verbatim>\<open>DNSZone\<close> of the GCP platform configuration: an operator-supplied zone.\<close>

record gcp_DNSZone =
  gcp_zone_ID :: string
  gcp_zone_ProjectID :: string

text \<open>
  The parts of the install configuration that \<^verbatim>\<open>Generate\<close> reads. The two methods
  \<^verbatim>\<open>ClusterDomain()\<close> and \<^verbatim>\<open>ClusterResourceGroupName(infraID)\<close> are not in the file:
  the first is the field \<open>Config_ClusterDomain\<close> (its result), the second the function
  \<open>Azure_ClusterResourceGroupName\<close>. A nil pointer \<^verbatim>\<open>GCP.PublicDNSZone\<close> is \<open>None\<close>.
\<close>

record InstallConfig =
  Platform_Name :: platform_name
  Config_BaseDomain :: string
  Config_ClusterDomain :: string
  Config_Publish :: PublishingStrategy
  AWS_HostedZone :: string
  Azure_CloudName :: CloudEnvironment
  Azure_BaseDomainResourceGroupName :: string
  Azure_ClusterResourceGroupName :: "string \<Rightarrow> string"
  GCP_ProjectID :: string
  GCP_PublicDNSZone :: "gcp_DNSZone option"
  GCP_PrivateDNSZone :: "gcp_DNSZone option"

record ClusterID =
  InfraID :: string

subsection \<open>Outputs\<close>

text \<open>
  \<^verbatim>\<open>configv1.DNSZone\<close> has a string \<^verbatim>\<open>ID\<close> and a map \<^verbatim>\<open>Tags\<close>. A field that a struct
  literal leaves out has its zero value: the empty string, the nil map.
\<close>

record DNSZone =
  ID :: string
  Tags :: "string \<rightharpoonup> string"

record DNSSpec =
  BaseDomain :: string
  PublicZone :: "DNSZone option"
  PrivateZone :: "DNSZone option"

record DNSConfig =
  APIVersion :: string
  Kind :: string
  ObjectMeta_Name :: string
  Spec :: DNSSpec

record File =
  Filename :: string
  Data :: string

record DNS =
  FileList :: "File list"

subsection \<open>Errors\<close>

text \<open>
  An error value records where it was made: \<open>Foreign e\<close> is the error \<open>e\<close> that a
  collaborator returned, \<open>New msg\<close> is \<^verbatim>\<open>errors.New(msg)\<close>, \<open>Wrap err msg\<close> is
  \<^verbatim>\<open>errors.Wrap(err, msg)\<close> and \<open>Wrapf err format args\<close> is
  \<^verbatim>\<open>errors.Wrapf(err, format, args...)\<close>, with the format string and its arguments kept
  apart (the rendering of \<^verbatim>\<open>%q\<close> is left to \<^verbatim>\<open>fmt\<close>).
\<close>

datatype foreign_error = ForeignError string

datatype error =
    Foreign foreign_error
  | New string
  | Wrap error string
  | Wrapf error string "string list"

text \<open>The error a wrapped error was made from.\<close>

fun Cause :: "error \<Rightarrow> error" where
  "Cause (Wrap err msg) = Cause err"
| "Cause (Wrapf err format args) = Cause err"
| "Cause err = err"

text \<open>The arguments that the outermost wrapping formats into its message.\<close>

fun format_args :: "error \<Rightarrow> string list" where
  "format_args (Wrapf err format args) = args"
| "format_args err = []"

subsection \<open>Collaborators\<close>

datatype aws_session = AwsSession nat

record azure_DNSConfig =
  GetDNSZoneID :: "string \<Rightarrow> string \<Rightarrow> string"
  GetPrivateDNSZoneID :: "string \<Rightarrow> string \<Rightarrow> string"

record ibmcloud_Client =
  ibmcloud_GetDNSZoneIDByName :: "string \<Rightarrow> PublishingStrategy \<Rightarrow> foreign_error + string"

record powervs_Client =
  powervs_GetDNSZoneIDByName :: "string \<Rightarrow> foreign_error + string"

text \<open>
  The functions and package values that \<^verbatim>\<open>Generate\<close> uses and the file does not define.
  \<open>icaws_GetPublicZone\<close> gives the \<^verbatim>\<open>Id\<close> of the hosted zone it found,
  \<open>icgcp_GetPublicZone\<close> the \<^verbatim>\<open>Name\<close> of the managed zone: the pointers that the code
  dereferences are taken to be set whenever the lookup returns no error.
\<close>

record collaborators =
  AWS_Session :: "foreign_error + aws_session"
  icaws_GetPublicZone :: "aws_session \<Rightarrow> string \<Rightarrow> foreign_error + string"
  Azure_DNSConfig :: "foreign_error + azure_DNSConfig"
  icgcp_GetPublicZone :: "string \<Rightarrow> string \<Rightarrow> foreign_error + string"
  icibmcloud_NewClient :: "foreign_error + ibmcloud_Client"
  icpowervs_NewClient :: "foreign_error + powervs_Client"
  yaml_Marshal :: "DNSConfig \<Rightarrow> foreign_error + string"
  SchemeGroupVersion_String :: string
  dnsCfgFilename :: string

text \<open>One entry for each call of a collaborator that can fail in the platform switch.\<close>

datatype lookup_call =
    Call_AWS_Session
  | Call_icaws_GetPublicZone aws_session string
  | Call_Azure_DNSConfig
  | Call_icgcp_GetPublicZone string string
  | Call_icibmcloud_NewClient
  | Call_ibmcloud_GetDNSZoneIDByName string PublishingStrategy
  | Call_icpowervs_NewClient
  | Call_powervs_GetDNSZoneIDByName string

subsection \<open>String helpers\<close>

text \<open>\<^verbatim>\<open>strings.HasPrefix\<close> and \<^verbatim>\<open>strings.TrimPrefix\<close> of the Go library.\<close>

definition HasPrefix :: "string \<Rightarrow> string \<Rightarrow> bool" where
  "HasPrefix s pre = (length s \<ge> length pre \<and> take (length pre) s = pre)"

definition TrimPrefix :: "string \<Rightarrow> string \<Rightarrow> string" where
  "TrimPrefix s pre = (if HasPrefix s pre then drop (length pre) s else s)"

text \<open>\<^verbatim>\<open>fmt.Sprintf("project/%s/managedZones/%s", project, zoneName)\<close>.\<close>

definition combineGCPZoneInfo :: "string \<Rightarrow> string \<Rightarrow> string" where
  "combineGCPZoneInfo project zoneName = ''project/'' @ project @ ''/managedZones/'' @ zoneName"

subsection \<open>Generate\<close>

text \<open>The two assignments \<^verbatim>\<open>config.Spec.PublicZone = &z\<close> and \<^verbatim>\<open>config.Spec.PrivateZone = &z\<close>.\<close>

definition set_PublicZone :: "DNSZone \<Rightarrow> DNSConfig \<Rightarrow> DNSConfig" where
  "set_PublicZone z config = config\<lparr>Spec := (Spec config)\<lparr>PublicZone := Some z\<rparr>\<rparr>"

definition set_PrivateZone :: "DNSZone \<Rightarrow> DNSConfig \<Rightarrow> DNSConfig" where
  "set_PrivateZone z config = config\<lparr>Spec := (Spec config)\<lparr>PrivateZone := Some z\<rparr>\<rparr>"

text \<open>A zone literal with only \<^verbatim>\<open>ID\<close>, and one with only \<^verbatim>\<open>Tags\<close>.\<close>

definition zone_ID :: "string \<Rightarrow> DNSZone" where
  "zone_ID i = \<lparr>ID = i, Tags = Map.empty\<rparr>"

definition zone_Tags :: "(string \<rightharpoonup> string) \<Rightarrow> DNSZone" where
  "zone_Tags t = \<lparr>ID = [], Tags = t\<rparr>"

text \<open>The configuration that \<^verbatim>\<open>Generate\<close> starts from (lines 76 to 88).\<close>

definition initial_config :: "InstallConfig \<Rightarrow> collaborators \<Rightarrow> DNSConfig" where
  "initial_config installConfig env =
     \<lparr>APIVersion = SchemeGroupVersion_String env,
      Kind = ''DNS'',
      ObjectMeta_Name = ''cluster'',
      Spec = \<lparr>BaseDomain = Config_ClusterDomain installConfig,
              PublicZone = None, PrivateZone = None\<rparr>\<rparr>"

text \<open>
  The first switch of the GCP case (lines 143 to 160): the public zone. It returns the
  calls issued and either the error that \<^verbatim>\<open>Generate\<close> returns or the configuration.
\<close>

definition gcp_public_zone ::
  "InstallConfig \<Rightarrow> collaborators \<Rightarrow> DNSConfig \<Rightarrow> lookup_call list \<times> (error + DNSConfig)" where
  "gcp_public_zone installConfig env config =
     (if Config_Publish installConfig \<noteq> ExternalPublishingStrategy then ([], Inr config)
      else if GCP_PublicDNSZone installConfig \<noteq> None
              \<and> gcp_zone_ID (the (GCP_PublicDNSZone installConfig)) \<noteq> [] then
        (let PublicDNSZone = the (GCP_PublicDNSZone installConfig);
             zoneID = gcp_zone_ID PublicDNSZone;
             zoneID = (if gcp_zone_ProjectID PublicDNSZone \<noteq> []
                          \<and> GCP_ProjectID installConfig \<noteq> gcp_zone_ProjectID PublicDNSZone
                       then combineGCPZoneInfo (gcp_zone_ProjectID PublicDNSZone)
                              (gcp_zone_ID PublicDNSZone)
                       else zoneID)
         in ([], Inr (set_PublicZone (zone_ID zoneID) config)))
      else
        (case icgcp_GetPublicZone env (GCP_ProjectID installConfig)
                (Config_BaseDomain installConfig) of
           Inl err \<Rightarrow>
             ([Call_icgcp_GetPublicZone (GCP_ProjectID installConfig)
                 (Config_BaseDomain installConfig)],
              Inl (Wrapf (Foreign err) ''failed to get public zone for %q''
                     [Config_BaseDomain installConfig]))
         | Inr zone_Name \<Rightarrow>
             ([Call_icgcp_GetPublicZone (GCP_ProjectID installConfig)
                 (Config_BaseDomain installConfig)],
              Inr (set_PublicZone (zone_ID zone_Name) config))))"

text \<open>
  The second switch of the GCP case (lines 163 to 174), under the comment
  \<^verbatim>\<open>// Set the private zone\<close>. With an operator-supplied private zone, line 170 assigns
  \<^verbatim>\<open>config.Spec.PublicZone\<close>.
\<close>

definition gcp_private_zone :: "InstallConfig \<Rightarrow> ClusterID \<Rightarrow> DNSConfig \<Rightarrow> DNSConfig" where
  "gcp_private_zone installConfig clusterID config =
     (if GCP_PrivateDNSZone installConfig \<noteq> None
         \<and> gcp_zone_ID (the (GCP_PrivateDNSZone installConfig)) \<noteq> [] then
        (let PrivateDNSZone = the (GCP_PrivateDNSZone installConfig);
             zoneID = gcp_zone_ID PrivateDNSZone;
             zoneID = (if gcp_zone_ProjectID PrivateDNSZone \<noteq> []
                          \<and> GCP_ProjectID installConfig \<noteq> gcp_zone_ProjectID PrivateDNSZone
                       then combineGCPZoneInfo (gcp_zone_ProjectID PrivateDNSZone)
                              (gcp_zone_ID PrivateDNSZone)
                       else zoneID)
         in set_PublicZone (zone_ID zoneID) config)
      else set_PrivateZone (zone_ID (InfraID clusterID @ ''-private-zone'')) config)"

text \<open>
  The public zone of the AWS case (lines 104 to 114).
\<close>

definition aws_public_zone ::
  "InstallConfig \<Rightarrow> collaborators \<Rightarrow> DNSConfig \<Rightarrow> lookup_call list \<times> (error + DNSConfig)" where
  "aws_public_zone installConfig env config =
     (if Config_Publish installConfig = ExternalPublishingStrategy then
        (case AWS_Session env of
           Inl err \<Rightarrow>
             ([Call_AWS_Session], Inl (Wrap (Foreign err) ''failed to initialize session''))
         | Inr sess \<Rightarrow>
             (case icaws_GetPublicZone env sess (Config_BaseDomain installConfig) of
                Inl err \<Rightarrow>
                  ([Call_AWS_Session,
                    Call_icaws_GetPublicZone sess (Config_BaseDomain installConfig)],
                   Inl (Wrapf (Foreign err) ''getting public zone for %q''
                          [Config_BaseDomain installConfig]))
              | Inr zone_Id \<Rightarrow>
                  ([Call_AWS_Session,
                    Call_icaws_GetPublicZone sess (Config_BaseDomain installConfig)],
                   Inr (set_PublicZone (zone_ID (TrimPrefix zone_Id ''/hostedzone/'')) config))))
      else ([], Inr config))"

text \<open>The private zone of the AWS case (lines 115 to 122).\<close>

definition aws_private_zone :: "InstallConfig \<Rightarrow> ClusterID \<Rightarrow> DNSConfig \<Rightarrow> DNSConfig" where
  "aws_private_zone installConfig clusterID config =
     (let hostedZone = AWS_HostedZone installConfig in
      if hostedZone = [] then
        set_PrivateZone
          (zone_Tags [''kubernetes.io/cluster/'' @ InfraID clusterID \<mapsto> ''owned'',
                      ''Name'' \<mapsto> InfraID clusterID @ ''-int''])
          config
      else set_PrivateZone (zone_ID hostedZone) config)"

text \<open>
  Lines 72 to 217 of \<^verbatim>\<open>Generate\<close>: the initial configuration and the switch on the platform
  name. The result is the list of calls issued and either the error with which
  \<^verbatim>\<open>Generate\<close> returns from inside the switch, or the configuration after the switch.
\<close>

definition Generate_config ::
  "InstallConfig \<Rightarrow> ClusterID \<Rightarrow> collaborators \<Rightarrow> lookup_call list \<times> (error + DNSConfig)" where
  "Generate_config installConfig clusterID env =
     (let config = initial_config installConfig env in
      case Platform_Name installConfig of
        AlibabaCloud \<Rightarrow>
          (let config =
                 (if Config_Publish installConfig = ExternalPublishingStrategy
                  then set_PublicZone
                         \<lparr>ID = Config_BaseDomain installConfig,
                          Tags = [''type'' \<mapsto> ''public'']\<rparr> config
                  else config)
           in ([], Inr (set_PrivateZone
                          \<lparr>ID = Config_ClusterDomain installConfig,
                           Tags = [''type'' \<mapsto> ''private'']\<rparr> config)))
      | AWS \<Rightarrow>
          (case aws_public_zone installConfig env config of
             (calls, Inl err) \<Rightarrow> (calls, Inl err)
           | (calls, Inr config) \<Rightarrow>
               (calls, Inr (aws_private_zone installConfig clusterID config)))
      | Azure \<Rightarrow>
          (case Azure_DNSConfig env of
             Inl err \<Rightarrow> ([Call_Azure_DNSConfig], Inl (Foreign err))
           | Inr dnsConfig \<Rightarrow>
               (let config =
                      (if Config_Publish installConfig = ExternalPublishingStrategy
                       then set_PublicZone
                              (zone_ID (GetDNSZoneID dnsConfig
                                 (Azure_BaseDomainResourceGroupName installConfig)
                                 (Config_BaseDomain installConfig))) config
                       else config);
                    config =
                      (if Azure_CloudName installConfig \<noteq> StackCloud
                       then set_PrivateZone
                              (zone_ID (GetPrivateDNSZoneID dnsConfig
                                 (Azure_ClusterResourceGroupName installConfig
                                    (InfraID clusterID))
                                 (Config_ClusterDomain installConfig))) config
                       else config)
                in ([Call_Azure_DNSConfig], Inr config)))
      | GCP \<Rightarrow>
          (case gcp_public_zone installConfig env config of
             (calls, Inl err) \<Rightarrow> (calls, Inl err)
           | (calls, Inr config) \<Rightarrow>
               (calls, Inr (gcp_private_zone installConfig clusterID config)))
      | IBMCloud \<Rightarrow>
          (case icibmcloud_NewClient env of
             Inl err \<Rightarrow>
               ([Call_icibmcloud_NewClient],
                Inl (Wrap (Foreign err) ''failed to get IBM Cloud client''))
           | Inr client \<Rightarrow>
               (let calls = [Call_icibmcloud_NewClient,
                             Call_ibmcloud_GetDNSZoneIDByName
                               (Config_BaseDomain installConfig)
                               (Config_Publish installConfig)]
                in case ibmcloud_GetDNSZoneIDByName client
                          (Config_BaseDomain installConfig) (Config_Publish installConfig) of
                     Inl err \<Rightarrow> (calls, Inl (Wrap (Foreign err) ''failed to get DNS zone ID''))
                   | Inr zoneID \<Rightarrow>
                       (let config =
                              (if Config_Publish installConfig = ExternalPublishingStrategy
                               then set_PublicZone (zone_ID zoneID) config else config)
                        in (calls, Inr (set_PrivateZone (zone_ID zoneID) config)))))
      | PowerVS \<Rightarrow>
          (case icpowervs_NewClient env of
             Inl err \<Rightarrow>
               ([Call_icpowervs_NewClient],
                Inl (Wrap (Foreign err) ''failed to get IBM PowerVS client''))
           | Inr client \<Rightarrow>
               (let calls = [Call_icpowervs_NewClient,
                             Call_powervs_GetDNSZoneIDByName
                               (Config_BaseDomain installConfig)]
                in case powervs_GetDNSZoneIDByName client
                          (Config_BaseDomain installConfig) of
                     Inl err \<Rightarrow> (calls, Inl (Wrap (Foreign err) ''failed to get DNS zone ID''))
                   | Inr zoneID \<Rightarrow>
                       (let config =
                              (if Config_Publish installConfig = ExternalPublishingStrategy
                               then set_PublicZone (zone_ID zoneID) config else config)
                        in (calls, Inr (set_PrivateZone (zone_ID zoneID) config)))))
      | Libvirt \<Rightarrow> ([], Inr config)
      | OpenStack \<Rightarrow> ([], Inr config)
      | BareMetal \<Rightarrow> ([], Inr config)
      | NonePlatform \<Rightarrow> ([], Inr config)
      | VSphere \<Rightarrow> ([], Inr config)
      | Ovirt \<Rightarrow> ([], Inr config)
      | Nutanix \<Rightarrow> ([], Inr config)
      | Unrecognized name \<Rightarrow> ([], Inl (New ''invalid Platform'')))"

text \<open>\<^verbatim>\<open>(*DNS).Name\<close>.\<close>

definition Name :: string where
  "Name = ''DNS Config''"

text \<open>
  \<^verbatim>\<open>(*DNS).Generate\<close>: the receiver after the call, the calls issued, and the error returned
  (\<open>None\<close> for nil). The file list is assigned only after the switch and the marshaller
  have both succeeded.
\<close>

definition Generate ::
  "DNS \<Rightarrow> InstallConfig \<Rightarrow> ClusterID \<Rightarrow> collaborators \<Rightarrow> DNS \<times> lookup_call list \<times> error option" where
  "Generate d installConfig clusterID env =
     (case Generate_config installConfig clusterID env of
        (calls, Inl err) \<Rightarrow> (d, calls, Some err)
      | (calls, Inr config) \<Rightarrow>
          (case yaml_Marshal env config of
             Inl err \<Rightarrow>
               (d, calls,
                Some (Wrapf (Foreign err) ''failed to create %s manifests from InstallConfig''
                        [Name]))
           | Inr configData \<Rightarrow>
               (d\<lparr>FileList := [\<lparr>Filename = dnsCfgFilename env, Data = configData\<rparr>]\<rparr>,
                calls, None)))"

text \<open>\<^verbatim>\<open>(*DNS).Files\<close>.\<close>

definition Files :: "DNS \<Rightarrow> File list" where
  "Files d = FileList d"


section \<open>Notions used by the properties\<close>

text \<open>The platforms of the empty case of the switch (line 214).\<close>

definition no_dns_platforms :: "platform_name set" where
  "no_dns_platforms = {Libvirt, OpenStack, BareMetal, NonePlatform, VSphere, Ovirt, Nutanix}"

text \<open>The zone references of a configuration: its public and its private zone, where set.\<close>

definition zone_refs :: "DNSConfig \<Rightarrow> DNSZone set" where
  "zone_refs config =
     set_option (PublicZone (Spec config)) \<union> set_option (PrivateZone (Spec config))"

text \<open>
  The error, if any, that the collaborators return on a call. A method of a client is
  called on the client that the constructor returned.
\<close>

fun call_error :: "collaborators \<Rightarrow> lookup_call \<Rightarrow> foreign_error option" where
  "call_error env Call_AWS_Session =
     (case AWS_Session env of Inl e \<Rightarrow> Some e | Inr sess \<Rightarrow> None)"
| "call_error env (Call_icaws_GetPublicZone sess domain) =
     (case icaws_GetPublicZone env sess domain of Inl e \<Rightarrow> Some e | Inr zone \<Rightarrow> None)"
| "call_error env Call_Azure_DNSConfig =
     (case Azure_DNSConfig env of Inl e \<Rightarrow> Some e | Inr dnsConfig \<Rightarrow> None)"
| "call_error env (Call_icgcp_GetPublicZone project domain) =
     (case icgcp_GetPublicZone env project domain of Inl e \<Rightarrow> Some e | Inr zone \<Rightarrow> None)"
| "call_error env Call_icibmcloud_NewClient =
     (case icibmcloud_NewClient env of Inl e \<Rightarrow> Some e | Inr client \<Rightarrow> None)"
| "call_error env (Call_ibmcloud_GetDNSZoneIDByName domain publish) =
     (case icibmcloud_NewClient env of
        Inl e \<Rightarrow> None
      | Inr client \<Rightarrow>
          (case ibmcloud_GetDNSZoneIDByName client domain publish of
             Inl e \<Rightarrow> Some e | Inr zoneID \<Rightarrow> None))"
| "call_error env Call_icpowervs_NewClient =
     (case icpowervs_NewClient env of Inl e \<Rightarrow> Some e | Inr client \<Rightarrow> None)"
| "call_error env (Call_powervs_GetDNSZoneIDByName domain) =
     (case icpowervs_NewClient env of
        Inl e \<Rightarrow> None
      | Inr client \<Rightarrow>
          (case powervs_GetDNSZoneIDByName client domain of
             Inl e \<Rightarrow> Some e | Inr zoneID \<Rightarrow> None))"

text \<open>
  What \<^verbatim>\<open>Generate\<close> makes of the error of a call, read off the \<^verbatim>\<open>return\<close> statement
  that follows each call in the source: lines 107, 111, 126, 157, 179, 184, 198 and 203.
\<close>

fun returned_error :: "lookup_call \<Rightarrow> foreign_error \<Rightarrow> error" where
  "returned_error Call_AWS_Session e = Wrap (Foreign e) ''failed to initialize session''"
| "returned_error (Call_icaws_GetPublicZone sess domain) e =
     Wrapf (Foreign e) ''getting public zone for %q'' [domain]"
| "returned_error Call_Azure_DNSConfig e = Foreign e"
| "returned_error (Call_icgcp_GetPublicZone project domain) e =
     Wrapf (Foreign e) ''failed to get public zone for %q'' [domain]"
| "returned_error Call_icibmcloud_NewClient e =
     Wrap (Foreign e) ''failed to get IBM Cloud client''"
| "returned_error (Call_ibmcloud_GetDNSZoneIDByName domain publish) e =
     Wrap (Foreign e) ''failed to get DNS zone ID''"
| "returned_error Call_icpowervs_NewClient e =
     Wrap (Foreign e) ''failed to get IBM PowerVS client''"
| "returned_error (Call_powervs_GetDNSZoneIDByName domain) e =
     Wrap (Foreign e) ''failed to get DNS zone ID''"

text \<open>
  The identifiers that the collaborators deliver for this install configuration are not
  empty strings: the hosted zone's \<^verbatim>\<open>Id\<close> after the prefix is trimmed, the two Azure zone
  identifiers, the name of the GCP managed zone, the IBM Cloud and Power VS zone
  identifiers.
\<close>

definition delivered_IDs_nonempty :: "InstallConfig \<Rightarrow> ClusterID \<Rightarrow> collaborators \<Rightarrow> bool" where
  "delivered_IDs_nonempty installConfig clusterID env =
     (case Platform_Name installConfig of
        AWS \<Rightarrow>
          (case AWS_Session env of
             Inl e \<Rightarrow> True
           | Inr sess \<Rightarrow>
               (case icaws_GetPublicZone env sess (Config_BaseDomain installConfig) of
                  Inl e \<Rightarrow> True
                | Inr zone_Id \<Rightarrow> TrimPrefix zone_Id ''/hostedzone/'' \<noteq> []))
      | Azure \<Rightarrow>
          (case Azure_DNSConfig env of
             Inl e \<Rightarrow> True
           | Inr dnsConfig \<Rightarrow>
               GetDNSZoneID dnsConfig (Azure_BaseDomainResourceGroupName installConfig)
                 (Config_BaseDomain installConfig) \<noteq> []
               \<and> GetPrivateDNSZoneID dnsConfig
                   (Azure_ClusterResourceGroupName installConfig (InfraID clusterID))
                   (Config_ClusterDomain installConfig) \<noteq> [])
      | GCP \<Rightarrow>
          (case icgcp_GetPublicZone env (GCP_ProjectID installConfig)
                  (Config_BaseDomain installConfig) of
             Inl e \<Rightarrow> True
           | Inr zone_Name \<Rightarrow> zone_Name \<noteq> [])
      | IBMCloud \<Rightarrow>
          (case icibmcloud_NewClient env of
             Inl e \<Rightarrow> True
           | Inr client \<Rightarrow>
               (case ibmcloud_GetDNSZoneIDByName client (Config_BaseDomain installConfig)
                       (Config_Publish installConfig) of
                  Inl e \<Rightarrow> True
                | Inr zoneID \<Rightarrow> zoneID \<noteq> []))
      | PowerVS \<Rightarrow>
          (case icpowervs_NewClient env of
             Inl e \<Rightarrow> True
           | Inr client \<Rightarrow>
               (case powervs_GetDNSZoneIDByName client (Config_BaseDomain installConfig) of
                  Inl e \<Rightarrow> True
                | Inr zoneID \<Rightarrow> zoneID \<noteq> []))
      | _ \<Rightarrow> True)"

text \<open>An operator-supplied GCP zone counts when the pointer is set and the ID is not empty.\<close>

definition gcp_zone_given :: "gcp_DNSZone option \<Rightarrow> bool" where
  "gcp_zone_given zone = (case zone of None \<Rightarrow> False | Some z \<Rightarrow> gcp_zone_ID z \<noteq> [])"

subsection \<open>Example inputs\<close>

definition example_installConfig :: InstallConfig where
  "example_installConfig =
     \<lparr>Platform_Name = AWS,
      Config_BaseDomain = ''example.com'',
      Config_ClusterDomain = ''demo.example.com'',
      Config_Publish = ExternalPublishingStrategy,
      AWS_HostedZone = [],
      Azure_CloudName = OtherCloud ''AzurePublicCloud'',
      Azure_BaseDomainResourceGroupName = ''dns-rg'',
      Azure_ClusterResourceGroupName = (\<lambda>infraID. infraID @ ''-rg''),
      GCP_ProjectID = ''p1'',
      GCP_PublicDNSZone = None,
      GCP_PrivateDNSZone = None\<rparr>"

definition example_clusterID :: ClusterID where
  "example_clusterID = \<lparr>InfraID = ''abc123''\<rparr>"

definition example_azure_DNSConfig :: azure_DNSConfig where
  "example_azure_DNSConfig =
     \<lparr>GetDNSZoneID = (\<lambda>rg domain. rg @ ''/dnszones/'' @ domain),
      GetPrivateDNSZoneID = (\<lambda>rg domain. rg @ ''/privateDnsZones/'' @ domain)\<rparr>"

text \<open>Collaborators that all succeed.\<close>

definition example_collaborators :: collaborators where
  "example_collaborators =
     \<lparr>AWS_Session = Inr (AwsSession 0),
      icaws_GetPublicZone = (\<lambda>sess domain. Inr ''/hostedzone/ABC123''),
      Azure_DNSConfig = Inr example_azure_DNSConfig,
      icgcp_GetPublicZone = (\<lambda>project domain. Inr ''example-zone''),
      icibmcloud_NewClient =
        Inr \<lparr>ibmcloud_GetDNSZoneIDByName = (\<lambda>domain publish. Inr ''ibm-zone-id'')\<rparr>,
      icpowervs_NewClient =
        Inr \<lparr>powervs_GetDNSZoneIDByName = (\<lambda>domain. Inr ''powervs-zone-id'')\<rparr>,
      yaml_Marshal = (\<lambda>config. Inr ''kind: DNS''),
      SchemeGroupVersion_String = ''config.openshift.io/v1'',
      dnsCfgFilename = ''manifests/cluster-dns-02-config.yml''\<rparr>"

text \<open>Collaborators whose IBM Cloud zone lookup fails.\<close>

definition failing_collaborators :: collaborators where
  "failing_collaborators =
     example_collaborators
       \<lparr>icibmcloud_NewClient :=
          Inr \<lparr>ibmcloud_GetDNSZoneIDByName =
                 (\<lambda>domain publish. Inl (ForeignError ''zone not found''))\<rparr>\<rparr>"

text \<open>The configuration that the examples start from, and an asset with an earlier file.\<close>

definition example_DNS :: DNS where
  "example_DNS = \<lparr>FileList = [\<lparr>Filename = ''old.yml'', Data = ''old''\<rparr>]\<rparr>"

definition example_config :: "DNSZone option \<Rightarrow> DNSZone option \<Rightarrow> DNSConfig" where
  "example_config public private =
     \<lparr>APIVersion = ''config.openshift.io/v1'',
      Kind = ''DNS'',
      ObjectMeta_Name = ''cluster'',
      Spec = \<lparr>BaseDomain = ''demo.example.com'', PublicZone = public, PrivateZone = private\<rparr>\<rparr>"


section \<open>Properties\<close>

lemmas switch_defs =
  Generate_config_def initial_config_def aws_public_zone_def aws_private_zone_def
  gcp_public_zone_def gcp_private_zone_def set_PublicZone_def set_PrivateZone_def
  zone_ID_def zone_Tags_def Let_def

lemmas example_defs =
  example_installConfig_def example_clusterID_def example_collaborators_def
  example_azure_DNSConfig_def failing_collaborators_def example_DNS_def example_config_def

subsection \<open>Platforms without a DNS zone\<close>

text \<open>
  C4. For each of the platforms libvirt, openstack, baremetal, none, vsphere, ovirt and
  nutanix, and for every publishing strategy, the switch succeeds, leaves both the public
  and the private zone of the configuration unset, and no collaborator is called.
\<close>

theorem no_dns_platform_empty_config:
  assumes "Platform_Name ic \<in> no_dns_platforms"
  shows "Generate_config ic cid env = ([], Inr (initial_config ic env))
     \<and> PublicZone (Spec (initial_config ic env)) = None
     \<and> PrivateZone (Spec (initial_config ic env)) = None
     \<and> fst (snd (Generate d ic cid env)) = []"
proof -
  have switch: "Generate_config ic cid env = ([], Inr (initial_config ic env))"
    using assms by (auto simp: no_dns_platforms_def Generate_config_def)
  have "fst (snd (Generate d ic cid env)) = []"
    by (simp add: Generate_def switch split: sum.splits)
  with switch show ?thesis
    by (simp add: initial_config_def)
qed

theorem no_dns_platform_empty_config_witness:
  "Platform_Name (example_installConfig\<lparr>Platform_Name := BareMetal\<rparr>) \<in> no_dns_platforms
   \<and> Generate_config (example_installConfig\<lparr>Platform_Name := BareMetal\<rparr>)
         example_clusterID example_collaborators
       = ([], Inr (example_config None None))
   \<and> fst (snd (Generate example_DNS (example_installConfig\<lparr>Platform_Name := BareMetal\<rparr>)
         example_clusterID example_collaborators)) = []"
  using no_dns_platform_empty_config
          [of "example_installConfig\<lparr>Platform_Name := BareMetal\<rparr>"
              example_clusterID example_collaborators example_DNS]
  by (simp add: no_dns_platforms_def example_defs initial_config_def)

subsection \<open>Alibaba Cloud\<close>

text \<open>
  C10. On Alibaba Cloud no collaborator is called. The private zone is always set, with
  the cluster domain as its ID and the tag type = private; the public zone is set, with
  the base domain as its ID and the tag type = public, exactly when the publishing
  strategy is External.
\<close>

theorem alibabacloud_zones:
  assumes "Platform_Name ic = AlibabaCloud"
  shows "Generate_config ic cid env =
     ([], Inr ((initial_config ic env)\<lparr>Spec :=
        \<lparr>BaseDomain = Config_ClusterDomain ic,
         PublicZone = (if Config_Publish ic = ExternalPublishingStrategy
                       then Some \<lparr>ID = Config_BaseDomain ic, Tags = [''type'' \<mapsto> ''public'']\<rparr>
                       else None),
         PrivateZone =
           Some \<lparr>ID = Config_ClusterDomain ic, Tags = [''type'' \<mapsto> ''private'']\<rparr>\<rparr>\<rparr>))"
  using assms
  by (simp add: Generate_config_def initial_config_def set_PublicZone_def set_PrivateZone_def)

theorem alibabacloud_zones_witness:
  "Platform_Name (example_installConfig
      \<lparr>Platform_Name := AlibabaCloud, Config_Publish := InternalPublishingStrategy\<rparr>)
     = AlibabaCloud
   \<and> Generate_config
         (example_installConfig
            \<lparr>Platform_Name := AlibabaCloud, Config_Publish := InternalPublishingStrategy\<rparr>)
         example_clusterID example_collaborators
       = ([], Inr (example_config None
                     (Some \<lparr>ID = ''demo.example.com'', Tags = [''type'' \<mapsto> ''private'']\<rparr>)))"
  using alibabacloud_zones
          [of "example_installConfig
                 \<lparr>Platform_Name := AlibabaCloud, Config_Publish := InternalPublishingStrategy\<rparr>"
              example_clusterID example_collaborators]
  by (simp add: example_defs initial_config_def)

subsection \<open>Unrecognized platforms\<close>

text \<open>
  The switch fails with \<^verbatim>\<open>errors.New("invalid Platform")\<close> exactly on an unrecognized
  platform name: every other error it returns is a collaborator's error, wrapped or not.
\<close>

lemma Generate_config_invalid_platform_iff:
  "snd (Generate_config ic cid env) = Inl (New ''invalid Platform'')
     \<longleftrightarrow> (\<exists>s. Platform_Name ic = Unrecognized s)"
proof (cases "Platform_Name ic")
  case AWS
  then show ?thesis
    by (auto simp: Generate_config_def aws_public_zone_def Let_def split: sum.splits if_splits)
next
  case Azure
  then show ?thesis
    by (auto simp: Generate_config_def Let_def split: sum.splits)
next
  case GCP
  then show ?thesis
    by (auto simp: Generate_config_def gcp_public_zone_def Let_def split: sum.splits if_splits)
next
  case IBMCloud
  then show ?thesis
    by (auto simp: Generate_config_def Let_def split: sum.splits)
next
  case PowerVS
  then show ?thesis
    by (auto simp: Generate_config_def Let_def split: sum.splits)
qed (simp_all add: Generate_config_def Let_def)

text \<open>
  C7. On an unrecognized platform name \<^verbatim>\<open>Generate\<close> returns the error
  \<^verbatim>\<open>invalid Platform\<close>, calls no collaborator and leaves the asset as it was, so no
  configuration is emitted; and \<^verbatim>\<open>Generate\<close> returns that error on no other input.
\<close>

theorem invalid_platform_iff_unrecognized:
  "(Platform_Name ic = Unrecognized s \<longrightarrow>
       Generate d ic cid env = (d, [], Some (New ''invalid Platform'')))
   \<and> (snd (snd (Generate d ic cid env)) = Some (New ''invalid Platform'') \<longrightarrow>
       (\<exists>s. Platform_Name ic = Unrecognized s))"
proof (intro conjI impI)
  assume "Platform_Name ic = Unrecognized s"
  then show "Generate d ic cid env = (d, [], Some (New ''invalid Platform''))"
    by (simp add: Generate_def Generate_config_def)
next
  assume returned: "snd (snd (Generate d ic cid env)) = Some (New ''invalid Platform'')"
  obtain calls r where switch: "Generate_config ic cid env = (calls, r)"
    by (cases "Generate_config ic cid env")
  from returned switch have "r = Inl (New ''invalid Platform'')"
    by (auto simp: Generate_def split: sum.splits)
  with switch have "snd (Generate_config ic cid env) = Inl (New ''invalid Platform'')"
    by simp
  then show "\<exists>s. Platform_Name ic = Unrecognized s"
    by (simp add: Generate_config_invalid_platform_iff)
qed

theorem invalid_platform_iff_unrecognized_witness:
  "Platform_Name (example_installConfig\<lparr>Platform_Name := Unrecognized ''equinix''\<rparr>)
     = Unrecognized ''equinix''
   \<and> Generate example_DNS (example_installConfig\<lparr>Platform_Name := Unrecognized ''equinix''\<rparr>)
         example_clusterID example_collaborators
       = (example_DNS, [], Some (New ''invalid Platform''))
   \<and> snd (snd (Generate example_DNS
         (example_installConfig\<lparr>Platform_Name := Unrecognized ''equinix''\<rparr>)
         example_clusterID example_collaborators)) = Some (New ''invalid Platform'')
   \<and> (\<exists>s. Platform_Name (example_installConfig\<lparr>Platform_Name := Unrecognized ''equinix''\<rparr>)
            = Unrecognized s)"
  using invalid_platform_iff_unrecognized
          [of "example_installConfig\<lparr>Platform_Name := Unrecognized ''equinix''\<rparr>"
              "''equinix''" example_DNS example_clusterID example_collaborators]
  by (simp add: example_defs)

subsection \<open>AWS\<close>

text \<open>
  What \<^verbatim>\<open>strings.TrimPrefix\<close> returns: the rest of a string that starts with the prefix,
  and the string itself when it does not start with the prefix.
\<close>

lemma HasPrefix_iff: "HasPrefix s pre \<longleftrightarrow> (\<exists>t. s = pre @ t)"
proof
  assume "HasPrefix s pre"
  then have "take (length pre) s = pre"
    by (simp add: HasPrefix_def)
  then have "s = pre @ drop (length pre) s"
    by (metis append_take_drop_id)
  then show "\<exists>t. s = pre @ t" ..
next
  assume "\<exists>t. s = pre @ t"
  then show "HasPrefix s pre"
    by (auto simp: HasPrefix_def)
qed

lemma TrimPrefix_append: "TrimPrefix (pre @ t) pre = t"
  by (simp add: TrimPrefix_def HasPrefix_def)

lemma TrimPrefix_no_prefix: "\<forall>t. s \<noteq> pre @ t \<Longrightarrow> TrimPrefix s pre = s"
  by (simp add: TrimPrefix_def HasPrefix_iff)

lemma TrimPrefix_hostedzone_example:
  "TrimPrefix ''/hostedzone/ABC123'' ''/hostedzone/'' = ''ABC123''"
  using TrimPrefix_append [of "''/hostedzone/''" "''ABC123''"] by simp

text \<open>
  C5. On AWS, when the publishing strategy is not External, no collaborator is called and
  the public zone is unset. When it is External and the session and the lookup succeed,
  the public zone is a by-ID reference: of the rest of the hosted zone's Id when the Id
  starts with \<^verbatim>\<open>/hostedzone/\<close>, and of the Id as it is otherwise; the handle
  \<^verbatim>\<open>/hostedzone/ABC123\<close> gives \<^verbatim>\<open>ABC123\<close>. Whenever the switch succeeds, the private zone
  is the hosted zone of the install configuration as a by-ID reference if one is given,
  and otherwise the by-tags reference with \<^verbatim>\<open>kubernetes.io/cluster/<infraID>\<close> =
  \<^verbatim>\<open>owned\<close> and \<^verbatim>\<open>Name\<close> = \<^verbatim>\<open><infraID>-int\<close>; the only calls are the session and the
  public zone lookup.
\<close>

theorem aws_zones:
  assumes aws: "Platform_Name ic = AWS"
  shows "(Config_Publish ic \<noteq> ExternalPublishingStrategy \<longrightarrow>
           (\<exists>config. Generate_config ic cid env = ([], Inr config)
                 \<and> PublicZone (Spec config) = None))
     \<and> (\<forall>sess zone_Id. Config_Publish ic = ExternalPublishingStrategy
           \<and> AWS_Session env = Inr sess
           \<and> icaws_GetPublicZone env sess (Config_BaseDomain ic) = Inr zone_Id \<longrightarrow>
           (\<exists>config. Generate_config ic cid env =
                 ([Call_AWS_Session, Call_icaws_GetPublicZone sess (Config_BaseDomain ic)],
                  Inr config)
               \<and> PublicZone (Spec config) =
                   Some \<lparr>ID = TrimPrefix zone_Id ''/hostedzone/'', Tags = Map.empty\<rparr>
               \<and> (\<forall>rest. zone_Id = ''/hostedzone/'' @ rest \<longrightarrow>
                     PublicZone (Spec config) = Some \<lparr>ID = rest, Tags = Map.empty\<rparr>)
               \<and> ((\<forall>rest. zone_Id \<noteq> ''/hostedzone/'' @ rest) \<longrightarrow>
                     PublicZone (Spec config) = Some \<lparr>ID = zone_Id, Tags = Map.empty\<rparr>)))
     \<and> TrimPrefix ''/hostedzone/ABC123'' ''/hostedzone/'' = ''ABC123''
     \<and> (\<forall>calls config. Generate_config ic cid env = (calls, Inr config) \<longrightarrow>
           PrivateZone (Spec config) =
             Some (if AWS_HostedZone ic = []
                   then \<lparr>ID = [],
                         Tags = [''kubernetes.io/cluster/'' @ InfraID cid \<mapsto> ''owned'',
                                 ''Name'' \<mapsto> InfraID cid @ ''-int'']\<rparr>
                   else \<lparr>ID = AWS_HostedZone ic, Tags = Map.empty\<rparr>)
           \<and> (\<forall>c \<in> set calls. c = Call_AWS_Session
                  \<or> (\<exists>sess. c = Call_icaws_GetPublicZone sess (Config_BaseDomain ic))))"
proof -
  have not_external: "Config_Publish ic \<noteq> ExternalPublishingStrategy \<longrightarrow>
           (\<exists>config. Generate_config ic cid env = ([], Inr config)
                 \<and> PublicZone (Spec config) = None)"
    using aws by (simp add: switch_defs)
  have is_external: "\<forall>sess zone_Id. Config_Publish ic = ExternalPublishingStrategy
           \<and> AWS_Session env = Inr sess
           \<and> icaws_GetPublicZone env sess (Config_BaseDomain ic) = Inr zone_Id \<longrightarrow>
           (\<exists>config. Generate_config ic cid env =
                 ([Call_AWS_Session, Call_icaws_GetPublicZone sess (Config_BaseDomain ic)],
                  Inr config)
               \<and> PublicZone (Spec config) =
                   Some \<lparr>ID = TrimPrefix zone_Id ''/hostedzone/'', Tags = Map.empty\<rparr>
               \<and> (\<forall>rest. zone_Id = ''/hostedzone/'' @ rest \<longrightarrow>
                     PublicZone (Spec config) = Some \<lparr>ID = rest, Tags = Map.empty\<rparr>)
               \<and> ((\<forall>rest. zone_Id \<noteq> ''/hostedzone/'' @ rest) \<longrightarrow>
                     PublicZone (Spec config) = Some \<lparr>ID = zone_Id, Tags = Map.empty\<rparr>))"
  proof (intro allI impI)
    fix sess zone_Id
    assume ok: "Config_Publish ic = ExternalPublishingStrategy
           \<and> AWS_Session env = Inr sess
           \<and> icaws_GetPublicZone env sess (Config_BaseDomain ic) = Inr zone_Id"
    define config where
      "config = set_PrivateZone
                  (if AWS_HostedZone ic = []
                   then zone_Tags [''kubernetes.io/cluster/'' @ InfraID cid \<mapsto> ''owned'',
                                   ''Name'' \<mapsto> InfraID cid @ ''-int'']
                   else zone_ID (AWS_HostedZone ic))
                  (set_PublicZone (zone_ID (TrimPrefix zone_Id ''/hostedzone/''))
                     (initial_config ic env))"
    have switch: "Generate_config ic cid env =
        ([Call_AWS_Session, Call_icaws_GetPublicZone sess (Config_BaseDomain ic)], Inr config)"
      using aws ok
      by (simp add: config_def Generate_config_def aws_public_zone_def aws_private_zone_def
            Let_def)
    have public_zone: "PublicZone (Spec config) =
        Some \<lparr>ID = TrimPrefix zone_Id ''/hostedzone/'', Tags = Map.empty\<rparr>"
      by (simp add: config_def set_PublicZone_def set_PrivateZone_def zone_ID_def)
    have with_prefix: "\<forall>rest. zone_Id = ''/hostedzone/'' @ rest \<longrightarrow>
        PublicZone (Spec config) = Some \<lparr>ID = rest, Tags = Map.empty\<rparr>"
      using public_zone TrimPrefix_append [of "''/hostedzone/''"] by auto
    have without_prefix: "(\<forall>rest. zone_Id \<noteq> ''/hostedzone/'' @ rest) \<longrightarrow>
        PublicZone (Spec config) = Some \<lparr>ID = zone_Id, Tags = Map.empty\<rparr>"
      using public_zone TrimPrefix_no_prefix [of zone_Id "''/hostedzone/''"] by auto
    from switch public_zone with_prefix without_prefix
    show "\<exists>config. Generate_config ic cid env =
                 ([Call_AWS_Session, Call_icaws_GetPublicZone sess (Config_BaseDomain ic)],
                  Inr config)
               \<and> PublicZone (Spec config) =
                   Some \<lparr>ID = TrimPrefix zone_Id ''/hostedzone/'', Tags = Map.empty\<rparr>
               \<and> (\<forall>rest. zone_Id = ''/hostedzone/'' @ rest \<longrightarrow>
                     PublicZone (Spec config) = Some \<lparr>ID = rest, Tags = Map.empty\<rparr>)
               \<and> ((\<forall>rest. zone_Id \<noteq> ''/hostedzone/'' @ rest) \<longrightarrow>
                     PublicZone (Spec config) = Some \<lparr>ID = zone_Id, Tags = Map.empty\<rparr>)"
      by (intro exI [of _ config] conjI)
  qed
  have private_zone: "\<forall>calls config. Generate_config ic cid env = (calls, Inr config) \<longrightarrow>
           PrivateZone (Spec config) =
             Some (if AWS_HostedZone ic = []
                   then \<lparr>ID = [],
                         Tags = [''kubernetes.io/cluster/'' @ InfraID cid \<mapsto> ''owned'',
                                 ''Name'' \<mapsto> InfraID cid @ ''-int'']\<rparr>
                   else \<lparr>ID = AWS_HostedZone ic, Tags = Map.empty\<rparr>)
           \<and> (\<forall>c \<in> set calls. c = Call_AWS_Session
                  \<or> (\<exists>sess. c = Call_icaws_GetPublicZone sess (Config_BaseDomain ic)))"
    using aws by (auto simp: switch_defs split: sum.splits if_splits)
  show ?thesis
    by (rule conjI [OF not_external conjI [OF is_external
          conjI [OF TrimPrefix_hostedzone_example private_zone]]])
qed

theorem aws_zones_witness:
  "Platform_Name example_installConfig = AWS
   \<and> Config_Publish (example_installConfig\<lparr>Config_Publish := InternalPublishingStrategy\<rparr>)
       \<noteq> ExternalPublishingStrategy
   \<and> Generate_config (example_installConfig\<lparr>Config_Publish := InternalPublishingStrategy\<rparr>)
         example_clusterID example_collaborators
       = ([], Inr (example_config None
                     (Some \<lparr>ID = [],
                            Tags = [''kubernetes.io/cluster/abc123'' \<mapsto> ''owned'',
                                    ''Name'' \<mapsto> ''abc123-int'']\<rparr>)))
   \<and> Config_Publish example_installConfig = ExternalPublishingStrategy
   \<and> AWS_Session example_collaborators = Inr (AwsSession 0)
   \<and> icaws_GetPublicZone example_collaborators (AwsSession 0)
         (Config_BaseDomain example_installConfig) = Inr ''/hostedzone/ABC123''
   \<and> ''/hostedzone/ABC123'' = ''/hostedzone/'' @ ''ABC123''
   \<and> Generate_config example_installConfig example_clusterID example_collaborators
       = ([Call_AWS_Session, Call_icaws_GetPublicZone (AwsSession 0) ''example.com''],
          Inr (example_config (Some \<lparr>ID = ''ABC123'', Tags = Map.empty\<rparr>)
                 (Some \<lparr>ID = [],
                        Tags = [''kubernetes.io/cluster/abc123'' \<mapsto> ''owned'',
                                ''Name'' \<mapsto> ''abc123-int'']\<rparr>)))
   \<and> icaws_GetPublicZone
         (example_collaborators\<lparr>icaws_GetPublicZone := (\<lambda>sess domain. Inr ''Z0123'')\<rparr>)
         (AwsSession 0) (Config_BaseDomain example_installConfig) = Inr ''Z0123''
   \<and> (\<forall>rest. ''Z0123'' \<noteq> ''/hostedzone/'' @ rest)
   \<and> Generate_config example_installConfig example_clusterID
         (example_collaborators\<lparr>icaws_GetPublicZone := (\<lambda>sess domain. Inr ''Z0123'')\<rparr>)
       = ([Call_AWS_Session, Call_icaws_GetPublicZone (AwsSession 0) ''example.com''],
          Inr (example_config (Some \<lparr>ID = ''Z0123'', Tags = Map.empty\<rparr>)
                 (Some \<lparr>ID = [],
                        Tags = [''kubernetes.io/cluster/abc123'' \<mapsto> ''owned'',
                                ''Name'' \<mapsto> ''abc123-int'']\<rparr>)))"
  using aws_zones [of example_installConfig example_clusterID example_collaborators]
        aws_zones [of "example_installConfig\<lparr>Config_Publish := InternalPublishingStrategy\<rparr>"
                      example_clusterID example_collaborators]
        aws_zones [of example_installConfig example_clusterID
                      "example_collaborators
                         \<lparr>icaws_GetPublicZone := (\<lambda>sess domain. Inr ''Z0123'')\<rparr>"]
  by (simp add: example_defs switch_defs TrimPrefix_def HasPrefix_def)

subsection \<open>Azure\<close>

text \<open>
  C9. On Azure, when the DNS configuration is obtained, the switch succeeds, and the
  private zone is unset exactly when the cloud is the Stack cloud; otherwise it is the
  by-ID reference that \<^verbatim>\<open>GetPrivateDNSZoneID\<close> makes from the cluster resource group and
  the cluster domain. The publishing strategy has no part in it.
\<close>

theorem azure_private_zone:
  assumes azure: "Platform_Name ic = Azure"
    and dns: "Azure_DNSConfig env = Inr dnsConfig"
  shows "\<exists>config. Generate_config ic cid env = ([Call_Azure_DNSConfig], Inr config)
      \<and> (PrivateZone (Spec config) = None \<longleftrightarrow> Azure_CloudName ic = StackCloud)
      \<and> PrivateZone (Spec config) =
          (if Azure_CloudName ic = StackCloud then None
           else Some \<lparr>ID = GetPrivateDNSZoneID dnsConfig
                            (Azure_ClusterResourceGroupName ic (InfraID cid))
                            (Config_ClusterDomain ic),
                      Tags = Map.empty\<rparr>)"
proof (cases "Azure_CloudName ic = StackCloud")
  case True
  with azure dns show ?thesis
    by (simp add: switch_defs)
next
  case False
  with azure dns show ?thesis
    by (simp add: switch_defs)
qed

theorem azure_private_zone_witness:
  "Platform_Name (example_installConfig
      \<lparr>Platform_Name := Azure, Config_Publish := InternalPublishingStrategy\<rparr>) = Azure
   \<and> Azure_DNSConfig example_collaborators = Inr example_azure_DNSConfig
   \<and> Generate_config
         (example_installConfig
            \<lparr>Platform_Name := Azure, Config_Publish := InternalPublishingStrategy\<rparr>)
         example_clusterID example_collaborators
       = ([Call_Azure_DNSConfig],
          Inr (example_config None
                 (Some \<lparr>ID = ''abc123-rg/privateDnsZones/demo.example.com'',
                        Tags = Map.empty\<rparr>)))"
  using azure_private_zone
          [of "example_installConfig
                 \<lparr>Platform_Name := Azure, Config_Publish := InternalPublishingStrategy\<rparr>"
              example_collaborators example_azure_DNSConfig example_clusterID]
  by (simp add: example_defs switch_defs)

subsection \<open>Errors of the collaborators\<close>

text \<open>
  Every call that the switch issues and that fails is the last one, and the switch returns
  what the \<^verbatim>\<open>return\<close> statement after that call makes of the error.
\<close>

lemma Generate_config_failed_call:
  assumes "Generate_config ic cid env = (calls, r)"
    and "c \<in> set calls" and "call_error env c = Some e"
  shows "r = Inl (returned_error c e)"
proof (cases "Platform_Name ic")
  case AWS
  with assms show ?thesis
    by (auto simp: Generate_config_def aws_public_zone_def Let_def
          split: sum.splits if_splits)
next
  case Azure
  with assms show ?thesis
    by (auto simp: Generate_config_def Let_def split: sum.splits)
next
  case GCP
  with assms show ?thesis
    by (auto simp: Generate_config_def gcp_public_zone_def Let_def
          split: sum.splits if_splits)
next
  case IBMCloud
  with assms show ?thesis
    by (auto simp: Generate_config_def Let_def split: sum.splits)
next
  case PowerVS
  with assms show ?thesis
    by (auto simp: Generate_config_def Let_def split: sum.splits)
qed (use assms in \<open>auto simp: Generate_config_def Let_def\<close>)

text \<open>
  C8, as the code has it. Whenever a call that \<^verbatim>\<open>Generate\<close> issues returns an error,
  \<^verbatim>\<open>Generate\<close> returns an error made from it and emits no configuration: the switch ends
  in the error and the file list of the asset stays as it was. The error is wrapped with
  the base domain and the words "public zone" for the public zone lookups of AWS and GCP;
  it is wrapped with a fixed message that names neither the base domain nor the kind of
  zone for the AWS session, the IBM Cloud and Power VS clients and their zone lookups; and
  it is returned as it is for the Azure DNS configuration.
\<close>

theorem failed_call_is_returned:
  assumes gen: "Generate d ic cid env = (d', calls, result)"
    and issued: "c \<in> set calls"
    and failed: "call_error env c = Some e"
  shows "d' = d
     \<and> result = Some (returned_error c e)
     \<and> Cause (returned_error c e) = Foreign e
     \<and> snd (Generate_config ic cid env) = Inl (returned_error c e)"
proof -
  obtain calls' r where switch: "Generate_config ic cid env = (calls', r)"
    by (cases "Generate_config ic cid env")
  from gen switch have same_calls: "calls' = calls"
    by (auto simp: Generate_def split: sum.splits)
  with switch issued failed have r: "r = Inl (returned_error c e)"
    using Generate_config_failed_call [of ic cid env calls r c e] by simp
  from gen switch r have "d' = d" and "result = Some (returned_error c e)"
    by (simp_all add: Generate_def)
  moreover have "Cause (returned_error c e) = Foreign e"
    by (cases c) simp_all
  ultimately show ?thesis
    using switch r by simp
qed

theorem failed_call_is_returned_witness:
  "Generate example_DNS (example_installConfig\<lparr>Platform_Name := IBMCloud\<rparr>)
       example_clusterID failing_collaborators
     = (example_DNS,
        [Call_icibmcloud_NewClient,
         Call_ibmcloud_GetDNSZoneIDByName ''example.com'' ExternalPublishingStrategy],
        Some (Wrap (Foreign (ForeignError ''zone not found'')) ''failed to get DNS zone ID''))
   \<and> Call_ibmcloud_GetDNSZoneIDByName ''example.com'' ExternalPublishingStrategy
       \<in> set [Call_icibmcloud_NewClient,
                Call_ibmcloud_GetDNSZoneIDByName ''example.com'' ExternalPublishingStrategy]
   \<and> call_error failing_collaborators
         (Call_ibmcloud_GetDNSZoneIDByName ''example.com'' ExternalPublishingStrategy)
       = Some (ForeignError ''zone not found'')
   \<and> snd (Generate_config (example_installConfig\<lparr>Platform_Name := IBMCloud\<rparr>)
         example_clusterID failing_collaborators)
       = Inl (Wrap (Foreign (ForeignError ''zone not found'')) ''failed to get DNS zone ID'')"
  using failed_call_is_returned
          [of example_DNS "example_installConfig\<lparr>Platform_Name := IBMCloud\<rparr>"
              example_clusterID failing_collaborators example_DNS
              "[Call_icibmcloud_NewClient,
                Call_ibmcloud_GetDNSZoneIDByName ''example.com'' ExternalPublishingStrategy]"
              "Some (Wrap (Foreign (ForeignError ''zone not found''))
                       ''failed to get DNS zone ID'')"
              "Call_ibmcloud_GetDNSZoneIDByName ''example.com'' ExternalPublishingStrategy"
              "ForeignError ''zone not found''"]
  by (simp add: example_defs Generate_def Generate_config_def)

text \<open>
  C8 as stated fails: when the IBM Cloud zone lookup for the base domain \<^verbatim>\<open>example.com\<close>
  fails, the error that \<^verbatim>\<open>Generate\<close> returns is wrapped with the message
  \<^verbatim>\<open>failed to get DNS zone ID\<close> alone; no base domain is formatted into it and it does not
  say which zone was looked up.
\<close>

theorem ibmcloud_error_without_base_domain:
  "Config_BaseDomain (example_installConfig\<lparr>Platform_Name := IBMCloud\<rparr>) = ''example.com''
   \<and> snd (snd (Generate example_DNS (example_installConfig\<lparr>Platform_Name := IBMCloud\<rparr>)
         example_clusterID failing_collaborators))
       = Some (Wrap (Foreign (ForeignError ''zone not found'')) ''failed to get DNS zone ID'')
   \<and> format_args (Wrap (Foreign (ForeignError ''zone not found''))
         ''failed to get DNS zone ID'') = []"
  by (simp add: example_defs Generate_def Generate_config_def)

subsection \<open>The form of a zone reference\<close>

text \<open>
  C3, as the code has it. On every platform but Alibaba Cloud, no zone reference of a
  configuration that the switch produces has both an ID and tags; and it has one of the
  two whenever the identifiers that the collaborators deliver are not empty strings.
\<close>

theorem zone_reference_one_form:
  assumes not_alibaba: "Platform_Name ic \<noteq> AlibabaCloud"
    and switch: "Generate_config ic cid env = (calls, Inr config)"
    and ref: "z \<in> zone_refs config"
  shows "\<not> (ID z \<noteq> [] \<and> Tags z \<noteq> Map.empty)
     \<and> (delivered_IDs_nonempty ic cid env \<longrightarrow> ID z \<noteq> [] \<or> Tags z \<noteq> Map.empty)"
proof (cases "Platform_Name ic")
  case AlibabaCloud
  with not_alibaba show ?thesis by simp
next
  case AWS
  with switch ref show ?thesis
    by (auto simp: switch_defs zone_refs_def delivered_IDs_nonempty_def
          split: sum.splits if_splits)
next
  case Azure
  with switch ref show ?thesis
    by (auto simp: switch_defs zone_refs_def delivered_IDs_nonempty_def
          split: sum.splits if_splits)
next
  case GCP
  with switch ref show ?thesis
    by (auto simp: switch_defs zone_refs_def delivered_IDs_nonempty_def
          combineGCPZoneInfo_def split: sum.splits if_splits)
next
  case IBMCloud
  with switch ref show ?thesis
    by (auto simp: switch_defs zone_refs_def delivered_IDs_nonempty_def
          split: sum.splits if_splits)
next
  case PowerVS
  with switch ref show ?thesis
    by (auto simp: switch_defs zone_refs_def delivered_IDs_nonempty_def
          split: sum.splits if_splits)
qed (use switch ref in \<open>auto simp: switch_defs zone_refs_def\<close>)

theorem zone_reference_one_form_witness:
  "Platform_Name example_installConfig \<noteq> AlibabaCloud
   \<and> Generate_config example_installConfig example_clusterID example_collaborators
       = ([Call_AWS_Session, Call_icaws_GetPublicZone (AwsSession 0) ''example.com''],
          Inr (example_config (Some \<lparr>ID = ''ABC123'', Tags = Map.empty\<rparr>)
                 (Some \<lparr>ID = [],
                        Tags = [''kubernetes.io/cluster/abc123'' \<mapsto> ''owned'',
                                ''Name'' \<mapsto> ''abc123-int'']\<rparr>)))
   \<and> \<lparr>ID = ''ABC123'', Tags = Map.empty\<rparr>
       \<in> zone_refs (example_config (Some \<lparr>ID = ''ABC123'', Tags = Map.empty\<rparr>)
                 (Some \<lparr>ID = [],
                        Tags = [''kubernetes.io/cluster/abc123'' \<mapsto> ''owned'',
                                ''Name'' \<mapsto> ''abc123-int'']\<rparr>))
   \<and> delivered_IDs_nonempty example_installConfig example_clusterID example_collaborators
   \<and> ID \<lparr>ID = ''ABC123'', Tags = Map.empty\<rparr> \<noteq> []
   \<and> Tags \<lparr>ID = ''ABC123'', Tags = Map.empty\<rparr> = Map.empty"
  using zone_reference_one_form
          [of example_installConfig example_clusterID example_collaborators
              "[Call_AWS_Session, Call_icaws_GetPublicZone (AwsSession 0) ''example.com'']"
              "example_config (Some \<lparr>ID = ''ABC123'', Tags = Map.empty\<rparr>)
                 (Some \<lparr>ID = [],
                        Tags = [''kubernetes.io/cluster/abc123'' \<mapsto> ''owned'',
                                ''Name'' \<mapsto> ''abc123-int'']\<rparr>)"
              "\<lparr>ID = ''ABC123'', Tags = Map.empty\<rparr>"]
  by (simp add: example_defs switch_defs zone_refs_def delivered_IDs_nonempty_def
        TrimPrefix_def HasPrefix_def)

text \<open>
  C3 as stated fails on Alibaba Cloud: the private zone of the configuration has the
  cluster domain as its ID and a tag as well.
\<close>

theorem alibabacloud_zone_has_ID_and_Tags:
  "Generate_config (example_installConfig\<lparr>Platform_Name := AlibabaCloud\<rparr>)
       example_clusterID example_collaborators
     = ([], Inr (example_config
                   (Some \<lparr>ID = ''example.com'', Tags = [''type'' \<mapsto> ''public'']\<rparr>)
                   (Some \<lparr>ID = ''demo.example.com'', Tags = [''type'' \<mapsto> ''private'']\<rparr>)))
   \<and> \<lparr>ID = ''demo.example.com'', Tags = [''type'' \<mapsto> ''private'']\<rparr>
       \<in> zone_refs (example_config
                   (Some \<lparr>ID = ''example.com'', Tags = [''type'' \<mapsto> ''public'']\<rparr>)
                   (Some \<lparr>ID = ''demo.example.com'', Tags = [''type'' \<mapsto> ''private'']\<rparr>))
   \<and> ID \<lparr>ID = ''demo.example.com'', Tags = [''type'' \<mapsto> ''private'']\<rparr> \<noteq> []
   \<and> Tags \<lparr>ID = ''demo.example.com'', Tags = [''type'' \<mapsto> ''private'']\<rparr> \<noteq> Map.empty"
  by (simp add: example_defs switch_defs zone_refs_def)

subsection \<open>GCP\<close>

text \<open>
  C1 at a failing input. The install configuration is for GCP, published internally, in
  the project \<^verbatim>\<open>p1\<close>, with the operator-supplied private zone \<^verbatim>\<open>z1\<close> of the project
  \<^verbatim>\<open>p2\<close>. The switch leaves the private zone unset; the composed identifier of the
  operator's zone is in the public zone.
\<close>

theorem gcp_private_override_leaves_private_zone_unset:
  "Generate_config
     (example_installConfig
        \<lparr>Platform_Name := GCP, Config_Publish := InternalPublishingStrategy,
         GCP_PrivateDNSZone := Some \<lparr>gcp_zone_ID = ''z1'', gcp_zone_ProjectID = ''p2''\<rparr>\<rparr>)
     example_clusterID example_collaborators
   = ([], Inr (example_config
                 (Some \<lparr>ID = ''project/p2/managedZones/z1'', Tags = Map.empty\<rparr>) None))"
  by (simp add: example_defs switch_defs combineGCPZoneInfo_def)

text \<open>
  C2 at a failing input. The install configuration is for GCP, published internally, with
  the operator-supplied private zone \<^verbatim>\<open>z1\<close> in the install's own project. The configuration
  that the switch produces has a public zone.
\<close>

theorem gcp_internal_publish_with_public_zone:
  "Config_Publish
     (example_installConfig
        \<lparr>Platform_Name := GCP, Config_Publish := InternalPublishingStrategy,
         GCP_PrivateDNSZone := Some \<lparr>gcp_zone_ID = ''z1'', gcp_zone_ProjectID = []\<rparr>\<rparr>)
     = InternalPublishingStrategy
   \<and> Generate_config
       (example_installConfig
          \<lparr>Platform_Name := GCP, Config_Publish := InternalPublishingStrategy,
           GCP_PrivateDNSZone := Some \<lparr>gcp_zone_ID = ''z1'', gcp_zone_ProjectID = []\<rparr>\<rparr>)
       example_clusterID example_collaborators
     = ([], Inr (example_config (Some \<lparr>ID = ''z1'', Tags = Map.empty\<rparr>) None))
   \<and> PublicZone (Spec (example_config (Some \<lparr>ID = ''z1'', Tags = Map.empty\<rparr>) None)) \<noteq> None"
  by (simp add: example_defs switch_defs)

text \<open>
  C6 at a failing input. The install configuration is for GCP, published externally, in
  the project \<^verbatim>\<open>p1\<close>, with the operator-supplied public zone \<^verbatim>\<open>z1\<close> of the project \<^verbatim>\<open>p2\<close>
  and the operator-supplied private zone \<^verbatim>\<open>my-private-zone\<close>. The public zone of the
  configuration is the private zone of the operator, not the composed identifier of the
  public one.
\<close>

theorem gcp_public_override_overwritten:
  "Generate_config
     (example_installConfig
        \<lparr>Platform_Name := GCP,
         GCP_PublicDNSZone := Some \<lparr>gcp_zone_ID = ''z1'', gcp_zone_ProjectID = ''p2''\<rparr>,
         GCP_PrivateDNSZone :=
           Some \<lparr>gcp_zone_ID = ''my-private-zone'', gcp_zone_ProjectID = []\<rparr>\<rparr>)
     example_clusterID example_collaborators
   = ([], Inr (example_config (Some \<lparr>ID = ''my-private-zone'', Tags = Map.empty\<rparr>) None))
   \<and> combineGCPZoneInfo ''p2'' ''z1'' = ''project/p2/managedZones/z1''"
  by (simp add: example_defs switch_defs combineGCPZoneInfo_def)

text \<open>
  Where no private zone is supplied, the GCP case does what its comments say. The private
  zone is the by-ID reference \<^verbatim>\<open><infraID>-private-zone\<close>, and the only call that can have
  been issued is the search for the public zone.
\<close>

theorem gcp_private_zone_default:
  assumes gcp: "Platform_Name ic = GCP"
    and no_private: "\<not> gcp_zone_given (GCP_PrivateDNSZone ic)"
    and switch: "Generate_config ic cid env = (calls, Inr config)"
  shows "PrivateZone (Spec config)
           = Some \<lparr>ID = InfraID cid @ ''-private-zone'', Tags = Map.empty\<rparr>
     \<and> (calls = []
          \<or> calls = [Call_icgcp_GetPublicZone (GCP_ProjectID ic) (Config_BaseDomain ic)])"
proof -
  from no_private have default:
    "gcp_private_zone ic cid c
       = set_PrivateZone (zone_ID (InfraID cid @ ''-private-zone'')) c" for c
    by (auto simp: gcp_private_zone_def gcp_zone_given_def split: option.splits)
  from gcp switch show ?thesis
    by (auto simp: Generate_config_def default gcp_public_zone_def initial_config_def
          set_PublicZone_def set_PrivateZone_def zone_ID_def Let_def
          split: sum.splits if_splits)
qed

theorem gcp_private_zone_default_witness:
  "Platform_Name (example_installConfig\<lparr>Platform_Name := GCP\<rparr>) = GCP
   \<and> \<not> gcp_zone_given (GCP_PrivateDNSZone (example_installConfig\<lparr>Platform_Name := GCP\<rparr>))
   \<and> Generate_config (example_installConfig\<lparr>Platform_Name := GCP\<rparr>)
         example_clusterID example_collaborators
       = ([Call_icgcp_GetPublicZone ''p1'' ''example.com''],
          Inr (example_config (Some \<lparr>ID = ''example-zone'', Tags = Map.empty\<rparr>)
                 (Some \<lparr>ID = ''abc123-private-zone'', Tags = Map.empty\<rparr>)))
   \<and> PrivateZone (Spec (example_config (Some \<lparr>ID = ''example-zone'', Tags = Map.empty\<rparr>)
                 (Some \<lparr>ID = ''abc123-private-zone'', Tags = Map.empty\<rparr>)))
       = Some \<lparr>ID = ''abc123-private-zone'', Tags = Map.empty\<rparr>"
  using gcp_private_zone_default
          [of "example_installConfig\<lparr>Platform_Name := GCP\<rparr>" example_clusterID
              example_collaborators "[Call_icgcp_GetPublicZone ''p1'' ''example.com'']"
              "example_config (Some \<lparr>ID = ''example-zone'', Tags = Map.empty\<rparr>)
                 (Some \<lparr>ID = ''abc123-private-zone'', Tags = Map.empty\<rparr>)"]
  by (simp add: example_defs switch_defs gcp_zone_given_def)

text \<open>
  With an operator-supplied public zone, external publishing and no private zone
  supplied, no collaborator is called and the public zone is the by-ID reference of the
  zone: composed with the zone's project when that is given and is not the install's own
  project, and the bare ID otherwise.
\<close>

theorem gcp_public_zone_override:
  assumes gcp: "Platform_Name ic = GCP"
    and ext: "Config_Publish ic = ExternalPublishingStrategy"
    and public_given: "GCP_PublicDNSZone ic = Some zone" "gcp_zone_ID zone \<noteq> []"
    and no_private: "\<not> gcp_zone_given (GCP_PrivateDNSZone ic)"
  shows "\<exists>config. Generate_config ic cid env = ([], Inr config)
     \<and> PublicZone (Spec config) =
         Some \<lparr>ID = (if gcp_zone_ProjectID zone \<noteq> []
                         \<and> GCP_ProjectID ic \<noteq> gcp_zone_ProjectID zone
                      then ''project/'' @ gcp_zone_ProjectID zone @ ''/managedZones/''
                             @ gcp_zone_ID zone
                      else gcp_zone_ID zone),
               Tags = Map.empty\<rparr>"
proof -
  from no_private have default:
    "gcp_private_zone ic cid c
       = set_PrivateZone (zone_ID (InfraID cid @ ''-private-zone'')) c" for c
    by (auto simp: gcp_private_zone_def gcp_zone_given_def split: option.splits)
  from gcp ext public_given show ?thesis
    by (simp add: Generate_config_def default gcp_public_zone_def initial_config_def
          set_PublicZone_def set_PrivateZone_def zone_ID_def combineGCPZoneInfo_def Let_def)
qed

theorem gcp_public_zone_override_witness:
  "Platform_Name (example_installConfig
      \<lparr>Platform_Name := GCP,
       GCP_PublicDNSZone := Some \<lparr>gcp_zone_ID = ''z1'', gcp_zone_ProjectID = ''p2''\<rparr>\<rparr>) = GCP
   \<and> Config_Publish (example_installConfig
      \<lparr>Platform_Name := GCP,
       GCP_PublicDNSZone := Some \<lparr>gcp_zone_ID = ''z1'', gcp_zone_ProjectID = ''p2''\<rparr>\<rparr>)
       = ExternalPublishingStrategy
   \<and> gcp_zone_ID \<lparr>gcp_zone_ID = ''z1'', gcp_zone_ProjectID = ''p2''\<rparr> \<noteq> []
   \<and> \<not> gcp_zone_given (GCP_PrivateDNSZone (example_installConfig
      \<lparr>Platform_Name := GCP,
       GCP_PublicDNSZone := Some \<lparr>gcp_zone_ID = ''z1'', gcp_zone_ProjectID = ''p2''\<rparr>\<rparr>))
   \<and> Generate_config (example_installConfig
      \<lparr>Platform_Name := GCP,
       GCP_PublicDNSZone := Some \<lparr>gcp_zone_ID = ''z1'', gcp_zone_ProjectID = ''p2''\<rparr>\<rparr>)
         example_clusterID example_collaborators
       = ([], Inr (example_config
                     (Some \<lparr>ID = ''project/p2/managedZones/z1'', Tags = Map.empty\<rparr>)
                     (Some \<lparr>ID = ''abc123-private-zone'', Tags = Map.empty\<rparr>)))"
  using gcp_public_zone_override
          [of "example_installConfig
                 \<lparr>Platform_Name := GCP,
                  GCP_PublicDNSZone :=
                    Some \<lparr>gcp_zone_ID = ''z1'', gcp_zone_ProjectID = ''p2''\<rparr>\<rparr>"
              "\<lparr>gcp_zone_ID = ''z1'', gcp_zone_ProjectID = ''p2''\<rparr>"
              example_clusterID example_collaborators]
  by (simp add: example_defs switch_defs gcp_zone_given_def combineGCPZoneInfo_def)

subsection \<open>The public zone and the publishing strategy\<close>

text \<open>
  Apart from GCP with an operator-supplied private zone, a configuration that the switch
  produces has a public zone only if the publishing strategy is External.
\<close>

theorem public_zone_only_if_external:
  assumes not_ext: "Config_Publish ic \<noteq> ExternalPublishingStrategy"
    and switch: "Generate_config ic cid env = (calls, Inr config)"
    and no_slip: "\<not> (Platform_Name ic = GCP \<and> gcp_zone_given (GCP_PrivateDNSZone ic))"
  shows "PublicZone (Spec config) = None"
proof (cases "Platform_Name ic")
  case GCP
  with no_slip have "\<not> gcp_zone_given (GCP_PrivateDNSZone ic)"
    by simp
  then have default:
    "gcp_private_zone ic cid c
       = set_PrivateZone (zone_ID (InfraID cid @ ''-private-zone'')) c" for c
    by (auto simp: gcp_private_zone_def gcp_zone_given_def split: option.splits)
  from GCP not_ext switch show ?thesis
    by (auto simp: Generate_config_def default gcp_public_zone_def initial_config_def
          set_PrivateZone_def)
next
  case AWS
  with not_ext switch show ?thesis
    by (auto simp: switch_defs)
next
  case Azure
  with not_ext switch show ?thesis
    by (auto simp: switch_defs split: sum.splits)
next
  case IBMCloud
  with not_ext switch show ?thesis
    by (auto simp: switch_defs split: sum.splits)
next
  case PowerVS
  with not_ext switch show ?thesis
    by (auto simp: switch_defs split: sum.splits)
qed (use not_ext switch in \<open>auto simp: switch_defs\<close>)

theorem public_zone_only_if_external_witness:
  "Config_Publish (example_installConfig
      \<lparr>Platform_Name := GCP, Config_Publish := InternalPublishingStrategy\<rparr>)
     \<noteq> ExternalPublishingStrategy
   \<and> Generate_config (example_installConfig
        \<lparr>Platform_Name := GCP, Config_Publish := InternalPublishingStrategy\<rparr>)
         example_clusterID example_collaborators
       = ([], Inr (example_config None
                     (Some \<lparr>ID = ''abc123-private-zone'', Tags = Map.empty\<rparr>)))
   \<and> \<not> (Platform_Name (example_installConfig
        \<lparr>Platform_Name := GCP, Config_Publish := InternalPublishingStrategy\<rparr>) = GCP
        \<and> gcp_zone_given (GCP_PrivateDNSZone (example_installConfig
             \<lparr>Platform_Name := GCP, Config_Publish := InternalPublishingStrategy\<rparr>)))
   \<and> PublicZone (Spec (example_config None
                     (Some \<lparr>ID = ''abc123-private-zone'', Tags = Map.empty\<rparr>))) = None"
  using public_zone_only_if_external
          [of "example_installConfig
                 \<lparr>Platform_Name := GCP, Config_Publish := InternalPublishingStrategy\<rparr>"
              example_clusterID example_collaborators "[]"
              "example_config None
                 (Some \<lparr>ID = ''abc123-private-zone'', Tags = Map.empty\<rparr>)"]
  by (simp add: example_defs switch_defs gcp_zone_given_def)

end
